theory Spec2Isabelle
  imports Complex_Main "HOL-Library.Log_Nat"
begin

section \<open>Data model\<close>

text \<open>
  The documents of the two collections, as the TypeScript interfaces and the Mongoose
  schemas declare them. A JavaScript \<open>number\<close> that holds a count (stock, quantity) is an
  \<open>int\<close>. A \<open>number\<close> that holds money is a double, and a double is a rational number:
  money is a \<open>rat\<close>, and the arithmetic that \<open>createSale\<close> does on it rounds as double
  arithmetic does (section Numbers). Fields of a product that no operation below reads
  (brand, categories, images, description, specifications, options) are left out. Document
  ids are strings; the ids of stored documents are ObjectIds.
\<close>

record Variant =
  id' :: string
  color :: "string option"
  ram :: "string option"
  storage :: "string option"
  purchasedPrice :: rat
  sellingPrice :: rat
  stock :: int

record Product =
  p_id :: string
  name :: string
  basePrice :: rat
  purchasedPrice :: rat
  sellingPrice :: rat
  variants :: "Variant list"

text \<open>\<open>SaleItem\<close> and \<open>Sale\<close> of the sale schema; \<open>createdAt\<close> is the timestamp that
  Mongoose sets on save, in milliseconds since the epoch.\<close>

record SaleItem =
  productId :: string
  quantity :: int
  price :: rat

record Sale =
  s_id :: string
  items :: "SaleItem list"
  total :: rat
  customerName :: "string option"
  createdAt :: int

text \<open>The body of \<open>POST /sales\<close>: \<open>CreateSaleDto\<close> and the type of its items, which has a
  product id and a quantity and nothing else.\<close>

record CreateSaleItem =
  productId :: string
  quantity :: int

record CreateSaleDto =
  items :: "CreateSaleItem list"
  customerName :: "string option"

text \<open>The database: the product collection and the sale collection, each in the order of
  insertion, which is the order \<open>find()\<close> returns.\<close>

record Store =
  products :: "Product list"
  sales :: "Sale list"

subsection \<open>Exceptions\<close>

datatype HttpStatus = BAD_REQUEST | NOT_FOUND | INTERNAL_SERVER_ERROR

text \<open>
  The message of an exception. \<open>Msg\<close> carries a literal text; \<open>InsufficientStockMsg n a r\<close>
  stands for the template
  \<^verbatim>\<open>Insufficient stock for product ${n}. Available: ${a}, Requested: ${r}\<close>
  with its three holes kept apart.
\<close>

datatype message = Msg string | InsufficientStockMsg string int int

text \<open>What a function can throw: Nest's \<open>HttpException\<close>, a plain \<open>Error\<close>, and the
  \<open>ValidationError\<close> with which Mongoose rejects a document that fails its schema.\<close>

datatype exn = HttpException message HttpStatus | Error string | ValidationError | CastError

section \<open>Numbers\<close>

text \<open>
  Double arithmetic: the exact result, rounded to the nearest number with 53 significant
  bits, a tie going to the even one. \<open>expo x\<close> is the binary exponent of a positive \<open>x\<close>,
  the \<open>e\<close> with \<open>2 powi e \<le> x < 2 powi (e + 1)\<close>. The range of the exponent is not
  bounded: there is no overflow to infinity and no gradual underflow, which sums of money do
  not reach.
\<close>

definition expo :: "rat \<Rightarrow> int" where
  "expo x = (case quotient_of x of (a, b) \<Rightarrow>
     (let k = bitlen a - bitlen b in if 2 powi k \<le> x then k else k - 1))"

definition roundEven :: "rat \<Rightarrow> int" where
  "roundEven r =
     (let f = \<lfloor>r\<rfloor>; d = r - of_int f
      in if d < 1 / 2 then f else if 1 / 2 < d then f + 1 else if even f then f else f + 1)"

definition fl :: "rat \<Rightarrow> rat" where
  "fl x = (if x = 0 then 0
           else (let u = 2 powi (expo \<bar>x\<bar> - 52)
                 in sgn x * of_int (roundEven (\<bar>x\<bar> / u)) * u))"

text \<open>The operators \<open>+\<close> and \<open>*\<close> of JavaScript on two doubles.\<close>

definition jsAdd :: "rat \<Rightarrow> rat \<Rightarrow> rat" where
  "jsAdd a b = fl (a + b)"

definition jsMul :: "rat \<Rightarrow> rat \<Rightarrow> rat" where
  "jsMul a b = fl (a * b)"

section \<open>ProductService\<close>

text \<open>
  \<open>findById\<close> casts the id to an ObjectId before it queries, and throws a \<open>CastError\<close> for
  a string that is not one. An ObjectId is written as 24 hexadecimal digits. \<open>findOne\<close> is
  the query itself: the first document with that id.
\<close>

definition isObjectId :: "string \<Rightarrow> bool" where
  "isObjectId i = (length i = 24 \<and> list_all (\<lambda>c. c \<in> set ''0123456789abcdefABCDEF'') i)"

definition findOne :: "Product list \<Rightarrow> string \<Rightarrow> Product option" where
  "findOne ps i = find (\<lambda>p. p_id p = i) ps"

definition findById :: "Product list \<Rightarrow> string \<Rightarrow> exn + Product option" where
  "findById ps i = (if isObjectId i then Inr (findOne ps i) else Inl CastError)"

text \<open>\<open>findByIdAndUpdate(id, { variants: vs })\<close>: the first document with that id gets the
  new variant list.\<close>

fun findByIdAndUpdate :: "Product list \<Rightarrow> string \<Rightarrow> Variant list \<Rightarrow> Product list" where
  "findByIdAndUpdate [] i vs = []"
| "findByIdAndUpdate (p # ps) i vs =
     (if p_id p = i then p\<lparr>variants := vs\<rparr> # ps else p # findByIdAndUpdate ps i vs)"

text \<open>
  \<open>updateStock(id, stockChange)\<close>. An unknown id gives \<open>null\<close>. A product without variants
  gets the variant \<open>default\<close> with stock 0. The first variant's stock is changed; a
  negative result throws before anything is written, so the store is then as before, as
  it is when \<open>findById\<close> throws.
\<close>

definition updateStock :: "Store \<Rightarrow> string \<Rightarrow> int \<Rightarrow> (exn + Product option) \<times> Store" where
  "updateStock st i stockChange =
     (case findById (products st) i of
        Inl e \<Rightarrow> (Inl e, st)
      | Inr None \<Rightarrow> (Inr None, st)
      | Inr (Some product) \<Rightarrow>
          (let (defaultVariant, others) =
                 (case variants product of
                    [] \<Rightarrow> (\<lparr>id' = ''default'', color = None, ram = None, storage = None,
                             Variant.purchasedPrice = Product.purchasedPrice product,
                             Variant.sellingPrice = Product.sellingPrice product,
                             stock = 0\<rparr>, [])
                  | v # vs \<Rightarrow> (v, vs));
               newStock = stock defaultVariant + stockChange
           in if newStock < 0 then (Inl (Error ''Insufficient stock''), st)
              else (let vs' = defaultVariant\<lparr>stock := newStock\<rparr> # others
                    in (Inr (Some (product\<lparr>variants := vs'\<rparr>)),
                        st\<lparr>products := findByIdAndUpdate (products st) i vs'\<rparr>))))"

text \<open>The stock a product offers: that of its first variant, and 0 when it has none.\<close>

definition stockOf :: "Product \<Rightarrow> int" where
  "stockOf product = (case variants product of [] \<Rightarrow> 0 | v # vs \<Rightarrow> stock v)"

text \<open>What \<open>updateStock\<close> does to a product that exists, in one equation: the new variant
  list is the old one with the first stock changed, or the default variant alone.\<close>

definition restocked :: "Product \<Rightarrow> int \<Rightarrow> Variant list" where
  "restocked p c =
     (case variants p of
        [] \<Rightarrow> [\<lparr>id' = ''default'', color = None, ram = None, storage = None,
                 Variant.purchasedPrice = Product.purchasedPrice p,
                 Variant.sellingPrice = Product.sellingPrice p, stock = c\<rparr>]
      | v # vs \<Rightarrow> v\<lparr>stock := stock v + c\<rparr> # vs)"

text \<open>\<open>findAvailableProducts\<close>, the query \<open>find({ 'variants.stock': { $gt: 0 } })\<close>: the
  products that have a variant in stock. The sales controller's \<open>getAvailableProducts\<close>
  returns its result; it lists the catalog and takes no part in a sale request.\<close>

definition findAvailableProducts :: "Store \<Rightarrow> Product list" where
  "findAvailableProducts st = filter (\<lambda>p. list_ex (\<lambda>v. 0 < stock v) (variants p)) (products st)"

definition getAvailableProducts :: "Store \<Rightarrow> Product list" where
  "getAvailableProducts st = findAvailableProducts st"

text \<open>A sequence of \<open>updateStock\<close> calls, each with its product id and its change; a call
  that throws leaves the store to the next one as it found it.\<close>

fun updateStocks :: "Store \<Rightarrow> (string \<times> int) list \<Rightarrow> Store" where
  "updateStocks st [] = st"
| "updateStocks st ((i, c) # cs) = updateStocks (snd (updateStock st i c)) cs"

definition stock_nonneg :: "Store \<Rightarrow> bool" where
  "stock_nonneg st = (\<forall>p \<in> set (products st). \<forall>v \<in> set (variants p). 0 \<le> stock v)"

section \<open>SaleService and NewSaleController\<close>

text \<open>
  \<open>SaleService.create\<close> saves a new sale document. Mongoose validates it against the sale
  schema first (\<open>quantity\<close> at least 1, \<open>price\<close> and \<open>total\<close> at least 0) and rejects it with
  a \<open>ValidationError\<close> otherwise; on success it adds the id and the timestamp, which are
  parameters here.
\<close>

definition schemaValid :: "SaleItem list \<Rightarrow> rat \<Rightarrow> bool" where
  "schemaValid saleItems tot =
     ((\<forall>it \<in> set saleItems. 1 \<le> SaleItem.quantity it \<and> 0 \<le> price it) \<and> 0 \<le> tot)"

definition create :: "int \<Rightarrow> string \<Rightarrow> Store \<Rightarrow> SaleItem list \<Rightarrow> rat \<Rightarrow> string option
    \<Rightarrow> (exn + Sale) \<times> Store" where
  "create now newId st saleItems tot cust =
     (if schemaValid saleItems tot
      then (let sale = \<lparr>s_id = newId, Sale.items = saleItems, total = tot,
                        Sale.customerName = cust, createdAt = now\<rparr>
            in (Inr sale, st\<lparr>sales := sales st @ [sale]\<rparr>))
      else (Inl ValidationError, st))"

text \<open>
  The first loop of \<open>createSale\<close>: it reads the products, checks each line and collects the
  sale items and the running total; it writes nothing. The price and the stock are those of
  the first variant, or the base price and 0 for a product without variants. The total is
  kept by \<open>total += saleItem.price * saleItem.quantity\<close>, in double arithmetic.
\<close>

fun processItems :: "Product list \<Rightarrow> CreateSaleItem list \<Rightarrow> SaleItem list \<Rightarrow> rat
    \<Rightarrow> exn + SaleItem list \<times> rat" where
  "processItems ps [] saleItems tot = Inr (saleItems, tot)"
| "processItems ps (item # rest) saleItems tot =
     (if CreateSaleItem.quantity item \<le> 0
      then Inl (HttpException (Msg ''Quantity must be greater than 0'') BAD_REQUEST)
      else (case findById ps (CreateSaleItem.productId item) of
              Inl e \<Rightarrow> Inl e
            | Inr None \<Rightarrow> Inl (HttpException
                  (Msg (''Product with ID '' @ CreateSaleItem.productId item @ '' not found''))
                  NOT_FOUND)
            | Inr (Some product) \<Rightarrow>
                (let defaultVariant = (case variants product of [] \<Rightarrow> None | v # vs \<Rightarrow> Some v);
                     price = (case defaultVariant of
                                Some v \<Rightarrow> Variant.sellingPrice v | None \<Rightarrow> basePrice product);
                     stock = (case defaultVariant of Some v \<Rightarrow> stock v | None \<Rightarrow> 0)
                 in if stock < CreateSaleItem.quantity item
                    then Inl (HttpException
                        (InsufficientStockMsg (name product) stock (CreateSaleItem.quantity item))
                        BAD_REQUEST)
                    else (let saleItem = \<lparr>SaleItem.productId = CreateSaleItem.productId item,
                                            SaleItem.quantity = CreateSaleItem.quantity item,
                                            price = price\<rparr>
                          in processItems ps rest (saleItems @ [saleItem])
                               (jsAdd tot (jsMul (SaleItem.price saleItem)
                                              (of_int (SaleItem.quantity saleItem))))))))"

text \<open>The second loop: one \<open>updateStock\<close> per line, in order, its result dropped. An
  exception ends the loop, with the store as the earlier calls left it.\<close>

fun updateAll :: "Store \<Rightarrow> CreateSaleItem list \<Rightarrow> exn option \<times> Store" where
  "updateAll st [] = (None, st)"
| "updateAll st (item # rest) =
     (case updateStock st (CreateSaleItem.productId item) (- CreateSaleItem.quantity item) of
        (Inl e, st') \<Rightarrow> (Some e, st')
      | (Inr r, st') \<Rightarrow> updateAll st' rest)"

text \<open>The \<open>try\<close> block of \<open>createSale\<close>.\<close>

definition createSale_try :: "int \<Rightarrow> string \<Rightarrow> Store \<Rightarrow> CreateSaleDto \<Rightarrow> (exn + Sale) \<times> Store" where
  "createSale_try now newId st dto =
     (if CreateSaleDto.items dto = []
      then (Inl (HttpException (Msg ''Sale must contain at least one item'') BAD_REQUEST), st)
      else (case processItems (products st) (CreateSaleDto.items dto) [] 0 of
              Inl e \<Rightarrow> (Inl e, st)
            | Inr (saleItems, tot) \<Rightarrow>
                (case updateAll st (CreateSaleDto.items dto) of
                   (Some e, st') \<Rightarrow> (Inl e, st')
                 | (None, st') \<Rightarrow>
                     create now newId st' saleItems tot (CreateSaleDto.customerName dto))))"

text \<open>The \<open>catch\<close> block: an \<open>HttpException\<close> goes on as it is, anything else becomes
  \<^verbatim>\<open>Failed to create sale\<close> with status 500. Nothing is undone.\<close>

definition createSale :: "int \<Rightarrow> string \<Rightarrow> Store \<Rightarrow> CreateSaleDto \<Rightarrow> (exn + Sale) \<times> Store" where
  "createSale now newId st dto =
     (case createSale_try now newId st dto of
        (Inl (HttpException m s), st') \<Rightarrow> (Inl (HttpException m s), st')
      | (Inl e, st') \<Rightarrow> (Inl (HttpException (Msg ''Failed to create sale'') INTERNAL_SERVER_ERROR), st')
      | (Inr sale, st') \<Rightarrow> (Inr sale, st'))"

section \<open>Dates\<close>

text \<open>
  A \<open>Date\<close> is its time value: milliseconds since 1970-01-01T00:00:00Z. The functions
  below are those of the ECMAScript date algorithms that the report service reaches
  through the \<open>Date\<close> API: days are numbered from the epoch, months from 0. The server's
  time zone is a parameter \<open>tz\<close>, its offset from UTC in minutes (positive to the east);
  it is taken constant, without daylight saving.
\<close>

definition msPerDay :: int where
  "msPerDay = 86400000"

definition InLeapYear :: "int \<Rightarrow> bool" where
  "InLeapYear y = (y mod 4 = 0 \<and> (y mod 100 \<noteq> 0 \<or> y mod 400 = 0))"

definition DayFromYear :: "int \<Rightarrow> int" where
  "DayFromYear y = 365 * (y - 1970) + (y - 1969) div 4 - (y - 1901) div 100 + (y - 1601) div 400"

text \<open>The number of days of year \<open>y\<close> before month \<open>m\<close> (0 to 11).\<close>

definition daysBeforeMonth :: "int \<Rightarrow> int \<Rightarrow> int" where
  "daysBeforeMonth y m =
     [0, 31, 59, 90, 120, 151, 181, 212, 243, 273, 304, 334] ! nat m
       + (if InLeapYear y \<and> 2 \<le> m then 1 else 0)"

text \<open>\<open>MakeDay\<close>: a month outside 0..11 carries into the year, a day outside the month
  carries into the neighbouring months.\<close>

definition MakeDay :: "int \<Rightarrow> int \<Rightarrow> int \<Rightarrow> int" where
  "MakeDay year month date =
     (let ym = year + month div 12; mn = month mod 12
      in DayFromYear ym + daysBeforeMonth ym mn + date - 1)"

definition MakeTime :: "int \<Rightarrow> int \<Rightarrow> int \<Rightarrow> int \<Rightarrow> int" where
  "MakeTime hour minute sec ms = hour * 3600000 + minute * 60000 + sec * 1000 + ms"

text \<open>\<open>new Date(year, monthIndex, day, hours, minutes, seconds, ms)\<close>: the fields are local
  time, and a year from 0 to 99 means 1900 + year.\<close>

definition newDate :: "int \<Rightarrow> int \<Rightarrow> int \<Rightarrow> int \<Rightarrow> int \<Rightarrow> int \<Rightarrow> int \<Rightarrow> int \<Rightarrow> int" where
  "newDate tz year monthIndex day hours minutes seconds ms =
     (let yr = (if 0 \<le> year \<and> year \<le> 99 then 1900 + year else year)
      in MakeDay yr monthIndex day * msPerDay + MakeTime hours minutes seconds ms - tz * 60000)"

text \<open>A date string \<^verbatim>\<open>YYYY-MM-DD\<close> is the triple of its numbers (year, month from 1, day).
  \<open>new Date(string)\<close> reads a date-only string as midnight UTC.\<close>

type_synonym dateString = "int \<times> int \<times> int"

definition parseDate :: "dateString \<Rightarrow> int" where
  "parseDate ds = (case ds of (y, m, d) \<Rightarrow> MakeDay y (m - 1) d * msPerDay)"

text \<open>\<open>setHours(h, m, s, ms)\<close> keeps the local day of the date and replaces the time in it.\<close>

definition setHours :: "int \<Rightarrow> int \<Rightarrow> int \<Rightarrow> int \<Rightarrow> int \<Rightarrow> int \<Rightarrow> int" where
  "setHours tz t hours minutes seconds ms =
     ((t + tz * 60000) div msPerDay) * msPerDay + MakeTime hours minutes seconds ms - tz * 60000"

text \<open>The civil date of a day number (year, month from 1, day), in the proleptic Gregorian
  calendar, computed on the 400-year cycle that starts on 1 March of year 0.\<close>

definition civilFromDays :: "int \<Rightarrow> dateString" where
  "civilFromDays z =
     (let z' = z + 719468;
          era = z' div 146097;
          doe = z' - era * 146097;
          yoe = (doe - doe div 1460 + doe div 36524 - doe div 146096) div 365;
          doy = doe - (365 * yoe + yoe div 4 - yoe div 100);
          mp = (5 * doy + 2) div 153;
          d = doy - (153 * mp + 2) div 5 + 1;
          m = (if mp < 10 then mp + 3 else mp - 9)
      in (yoe + era * 400 + (if m \<le> 2 then 1 else 0), m, d))"

text \<open>\<open>toISOString().split('T')[0]\<close>: the date in UTC.\<close>

definition isoDate :: "int \<Rightarrow> dateString" where
  "isoDate t = civilFromDays (t div msPerDay)"

section \<open>SalesReportService\<close>

text \<open>The reports are about which sales and items are counted, under which key and in which
  order; their sums and quotients are taken exactly.\<close>

text \<open>A JavaScript \<open>Map\<close> keeps its keys in the order of their first insertion: \<open>mapSet\<close>
  replaces the value of a key in place and appends a new key at the end.\<close>

fun mapSet :: "('k \<times> 'v) list \<Rightarrow> 'k \<Rightarrow> 'v \<Rightarrow> ('k \<times> 'v) list" where
  "mapSet [] k v = [(k, v)]"
| "mapSet ((k', v') # m) k v = (if k' = k then (k, v) # m else (k', v') # mapSet m k v)"

definition mapGet :: "('k \<times> 'v) list \<Rightarrow> 'k \<Rightarrow> 'v option" where
  "mapGet m k = map_of m k"

record SalesOverview =
  totalSales :: nat
  totalRevenue :: rat
  averageOrderValue :: rat
  totalProducts :: nat

record DailySalesReport =
  date :: dateString
  totalSales :: nat
  totalRevenue :: rat
  averageOrderValue :: rat
  sales :: "Sale list"

record DayStats =
  sales :: nat
  revenue :: rat

record DailyStat = DayStats +
  date :: dateString

record MonthlySalesReport =
  month :: int
  year :: int
  totalSales :: nat
  totalRevenue :: rat
  averageOrderValue :: rat
  dailyStats :: "DailyStat list"

text \<open>\<open>averagePrice\<close> is a quotient whose divisor the code does not check: \<open>None\<close> is the
  \<open>NaN\<close> or infinity that JavaScript gives for a zero divisor.\<close>

record ProductSalesReport =
  productId :: string
  name :: string
  totalQuantitySold :: int
  totalRevenue :: rat
  averagePrice :: "rat option"


text \<open>\<open>sales.reduce((sum, sale) => sum + sale.total, 0)\<close>\<close>

definition sumTotals :: "Sale list \<Rightarrow> rat" where
  "sumTotals ss = fold (\<lambda>sale sum. sum + total sale) ss 0"

text \<open>The query \<open>find({ createdAt: { $gte: startDate, $lte: endDate } })\<close>.\<close>

definition findBetween :: "Store \<Rightarrow> int \<Rightarrow> int \<Rightarrow> Sale list" where
  "findBetween st startDate endDate =
     filter (\<lambda>sale. startDate \<le> createdAt sale \<and> createdAt sale \<le> endDate) (Store.sales st)"


text \<open>The daily report. Its query also populates the items' products, which decorates the
  sales found and does not change which sales they are; the sales are returned as stored.\<close>

definition getDailySalesReport :: "int \<Rightarrow> Store \<Rightarrow> dateString \<Rightarrow> DailySalesReport" where
  "getDailySalesReport tz st = (\<lambda>date.
     (let startDate = setHours tz (parseDate date) 0 0 0 0;
          endDate = setHours tz (parseDate date) 23 59 59 999;
          sales = findBetween st startDate endDate;
          totalRevenue = sumTotals sales
      in \<lparr>DailySalesReport.date = date,
          totalSales = length sales,
          totalRevenue = totalRevenue,
          averageOrderValue = (if length sales > 0 then totalRevenue / of_nat (length sales) else 0),
          sales = sales\<rparr>))"

text \<open>The \<open>while\<close> loop of the monthly report: one key per step, the date moved on by one
  day with \<open>setDate(getDate() + 1)\<close>, which at a constant offset is one day of milliseconds.\<close>

function fillDays :: "int \<Rightarrow> int \<Rightarrow> (dateString \<times> DayStats) list \<Rightarrow> (dateString \<times> DayStats) list" where
  "fillDays currentDate endDate statsMap =
     (if currentDate \<le> endDate
      then fillDays (currentDate + msPerDay) endDate
             (mapSet statsMap (isoDate currentDate) \<lparr>DayStats.sales = 0, revenue = 0\<rparr>)
      else statsMap)"
  by pat_completeness auto
termination
  by (relation "measure (\<lambda>(c, e, m). nat (e - c + 1))") (auto simp: msPerDay_def)

text \<open>The body of \<open>sales.forEach\<close> in the monthly report.\<close>

definition addSale :: "Sale \<Rightarrow> (dateString \<times> DayStats) list \<Rightarrow> (dateString \<times> DayStats) list" where
  "addSale sale statsMap =
     (let dateStr = isoDate (createdAt sale);
          stats = (case mapGet statsMap dateStr of
                     Some s \<Rightarrow> s | None \<Rightarrow> \<lparr>DayStats.sales = 0, revenue = 0\<rparr>)
      in mapSet statsMap dateStr
           (stats\<lparr>DayStats.sales := DayStats.sales stats + 1, revenue := revenue stats + total sale\<rparr>))"

definition getMonthlySalesReport :: "int \<Rightarrow> Store \<Rightarrow> int \<Rightarrow> int \<Rightarrow> MonthlySalesReport" where
  "getMonthlySalesReport tz st = (\<lambda>month year.
     (let startDate = newDate tz year (month - 1) 1 0 0 0 0;
          endDate = newDate tz year month 0 23 59 59 999;
          sales = findBetween st startDate endDate;
          totalRevenue = sumTotals sales;
          dailyStats = fold addSale sales (fillDays startDate endDate [])
      in \<lparr>month = month, year = year,
          totalSales = length sales,
          totalRevenue = totalRevenue,
          averageOrderValue = (if length sales > 0 then totalRevenue / of_nat (length sales) else 0),
          dailyStats = map (\<lambda>(date, stats). \<lparr>DayStats.sales = DayStats.sales stats,
                                               revenue = revenue stats, date = date\<rparr>) dailyStats\<rparr>))"




section \<open>Notions used in the statements\<close>

text \<open>The unit price a product offers: the selling price of its first variant, and the
  base price when it has none.\<close>

definition priceOf :: "Product \<Rightarrow> rat" where
  "priceOf product =
     (case variants product of [] \<Rightarrow> basePrice product | v # vs \<Rightarrow> Variant.sellingPrice v)"

text \<open>The exact product of a line item's price and quantity, and the total of a list of
  items as JavaScript adds it up: each product rounded, and added in order to the running
  total, which starts at 0 and is rounded after each step.\<close>

definition lineTotal :: "SaleItem \<Rightarrow> rat" where
  "lineTotal it = price it * of_int (SaleItem.quantity it)"

definition jsTotal :: "SaleItem list \<Rightarrow> rat" where
  "jsTotal its = fold (\<lambda>it t. jsAdd t (jsMul (price it) (of_int (SaleItem.quantity it)))) its 0"

text \<open>A request line that the first loop accepts against a catalog: a positive quantity
  of a product that \<open>findById\<close> finds and that offers at least that much.\<close>

definition lineOk :: "Product list \<Rightarrow> CreateSaleItem \<Rightarrow> bool" where
  "lineOk ps l =
     (0 < CreateSaleItem.quantity l \<and>
      (case findById ps (CreateSaleItem.productId l) of
         Inr (Some p) \<Rightarrow> CreateSaleItem.quantity l \<le> stockOf p
       | Inr None \<Rightarrow> False
       | Inl e \<Rightarrow> False))"

text \<open>A sale item is the snapshot of a request line against a catalog: the line's product
  and quantity, at the price the product offers in that catalog.\<close>

definition snapshot :: "Product list \<Rightarrow> CreateSaleItem \<Rightarrow> SaleItem \<Rightarrow> bool" where
  "snapshot ps l it =
     (SaleItem.productId it = CreateSaleItem.productId l \<and>
      SaleItem.quantity it = CreateSaleItem.quantity l \<and>
      (case findOne ps (CreateSaleItem.productId l) of
         None \<Rightarrow> False
       | Some p \<Rightarrow> price it = priceOf p))"

text \<open>The total quantity a request asks of one product, over all its lines.\<close>

definition requested :: "CreateSaleItem list \<Rightarrow> string \<Rightarrow> int" where
  "requested ls i =
     sum_list (map CreateSaleItem.quantity (filter (\<lambda>l. CreateSaleItem.productId l = i) ls))"

text \<open>The stock the store holds under a product id, if the id exists.\<close>

definition stockAt :: "Store \<Rightarrow> string \<Rightarrow> int option" where
  "stockAt st i = map_option stockOf (findOne (products st) i)"

text \<open>A store seen through the first variants alone: every other variant is erased.
  \<open>otherVariants\<close> is the complement, the variants after the first of each product.\<close>

definition firstVariantOnly :: "Product \<Rightarrow> Product" where
  "firstVariantOnly p = p\<lparr>variants := take 1 (variants p)\<rparr>"

definition firstOnly :: "Store \<Rightarrow> Store" where
  "firstOnly st = st\<lparr>products := map firstVariantOnly (products st)\<rparr>"

definition otherVariants :: "Store \<Rightarrow> Variant list list" where
  "otherVariants st = map (\<lambda>p. tl (variants p)) (products st)"

text \<open>The calendar date of a time value on the server's clock.\<close>

definition localDate :: "int \<Rightarrow> int \<Rightarrow> dateString" where
  "localDate tz t = civilFromDays ((t + tz * 60000) div msPerDay)"







section \<open>Sample data\<close>

text \<open>A small catalog and a few requests, on which the theorems below are run. \<open>p1\<close>,
  \<open>p2\<close> and \<open>p3\<close> are the ids of its products, \<open>p4\<close> that of a product priced at 0.1,
  and \<open>gone\<close> an id that no product has.\<close>

definition p1 :: string where "p1 = ''64b7f1a20000000000000001''"

definition p2 :: string where "p2 = ''64b7f1a20000000000000002''"

definition p3 :: string where "p3 = ''64b7f1a20000000000000003''"

definition p4 :: string where "p4 = ''64b7f1a20000000000000004''"

definition gone :: string where "gone = ''64b7f1a200000000000000ff''"

definition exVariant :: "string \<Rightarrow> int \<Rightarrow> rat \<Rightarrow> Variant" where
  "exVariant v s pr = \<lparr>id' = v, color = None, ram = None, storage = None,
     Variant.purchasedPrice = 6, Variant.sellingPrice = pr, stock = s\<rparr>"

definition exProduct :: "string \<Rightarrow> Variant list \<Rightarrow> Product" where
  "exProduct i vs = \<lparr>p_id = i, name = ''item '' @ i, basePrice = 12,
     Product.purchasedPrice = 6, Product.sellingPrice = 10, variants = vs\<rparr>"

definition exStore :: Store where
  "exStore = \<lparr>products = [exProduct p1 [exVariant ''a'' 5 10, exVariant ''b'' 7 11],
                           exProduct p2 [exVariant ''a'' 4 (5 / 2)],
                           exProduct p3 []],
              Store.sales = []\<rparr>"

text \<open>A catalog of one product, nine in stock at the price 0.1, which as a double is
  3602879701896397 / 36028797018963968; and the sale that three of it make.\<close>

definition exDimeStore :: Store where
  "exDimeStore = \<lparr>products = [exProduct p4 [exVariant ''a'' 9 (fl (1 / 10))]], Store.sales = []\<rparr>"

definition exDimeSale :: Sale where
  "exDimeSale = \<lparr>s_id = ''s1'',
     Sale.items = [\<lparr>SaleItem.productId = p4, SaleItem.quantity = 3,
                    price = 3602879701896397 / 36028797018963968\<rparr>],
     total = 5404319552844596 / 18014398509481984,
     Sale.customerName = Some ''Ann'', createdAt = 1000\<rparr>"

definition exLine :: "string \<Rightarrow> int \<Rightarrow> CreateSaleItem" where
  "exLine i q = \<lparr>CreateSaleItem.productId = i, CreateSaleItem.quantity = q\<rparr>"

text \<open>The sale that three of \<open>p1\<close> and two of \<open>p2\<close> make at time 1000.\<close>

definition exSale :: Sale where
  "exSale = \<lparr>s_id = ''s1'',
     Sale.items = [\<lparr>SaleItem.productId = p1, SaleItem.quantity = 3, price = 10\<rparr>,
                   \<lparr>SaleItem.productId = p2, SaleItem.quantity = 2, price = 5 / 2\<rparr>],
     total = 35, Sale.customerName = Some ''Ann'', createdAt = 1000\<rparr>"

definition exDto :: "CreateSaleItem list \<Rightarrow> CreateSaleDto" where
  "exDto ls = \<lparr>CreateSaleDto.items = ls, CreateSaleDto.customerName = Some ''Ann''\<rparr>"

text \<open>A sale of three of \<open>p1\<close> at a given time, a second sale that names a product the
  catalog does not have, and stores that hold given sales over the sample catalog.\<close>

definition exSaleAt :: "string \<Rightarrow> int \<Rightarrow> Sale" where
  "exSaleAt i t = \<lparr>s_id = i,
     Sale.items = [\<lparr>SaleItem.productId = p1, SaleItem.quantity = 3, price = 10\<rparr>],
     total = 30, Sale.customerName = None, createdAt = t\<rparr>"


definition exSalesStore :: "Sale list \<Rightarrow> Store" where
  "exSalesStore ss = \<lparr>products = products exStore, Store.sales = ss\<rparr>"

section \<open>Calendar checks\<close>

text \<open>The two directions of the calendar agree on sample days: the epoch, the day before
  it, leap days in 2000 and 2024, the end of a century that is not a leap year, and the
  first of each month of 2024.\<close>

lemma civilFromDays_samples:
  "civilFromDays 0 = (1970, 1, 1)" "civilFromDays (- 1) = (1969, 12, 31)"
  "civilFromDays 19782 = (2024, 2, 29)" "civilFromDays (MakeDay 2000 1 29) = (2000, 2, 29)"
  "civilFromDays (MakeDay 1900 1 29) = (1900, 3, 1)" "civilFromDays (MakeDay 2023 12 0) = (2023, 12, 31)"
  "map (\<lambda>m. civilFromDays (MakeDay 2024 m 1)) [0, 1, 2, 3, 4, 5, 6, 7, 8, 9, 10, 11]
     = map (\<lambda>m. (2024, m + 1, 1)) [0, 1, 2, 3, 4, 5, 6, 7, 8, 9, 10, 11]"
  by code_simp+

section \<open>Rounding\<close>















lemma fl_samples:
  "fl 30 = 30" "fl (5 / 2) = 5 / 2" "fl (2 ^ 53 + 1) = 2 ^ 53"
  "fl (1 / 10) = 3602879701896397 / 36028797018963968"
  "fl (fl (1 / 10) * 3) = 5404319552844596 / 18014398509481984"
  by code_simp+



section \<open>Stock ledger\<close>

lemma findOne_Some_mem: "findOne ps i = Some p \<Longrightarrow> p \<in> set ps \<and> p_id p = i"
  unfolding findOne_def by (induction ps) (auto split: if_splits)

lemma findById_found: "findById ps i = Inr (Some p) \<longleftrightarrow> isObjectId i \<and> findOne ps i = Some p"
  by (simp add: findById_def)

lemma findById_cases:
  obtains (cast) "\<not> isObjectId i" "findById ps i = Inl CastError"
  | (missing) "isObjectId i" "findOne ps i = None" "findById ps i = Inr None"
  | (found) p where "isObjectId i" "findOne ps i = Some p" "findById ps i = Inr (Some p)"
  by (cases "isObjectId i"; cases "findOne ps i") (auto simp: findById_def)

lemma set_findByIdAndUpdate:
  "q \<in> set (findByIdAndUpdate ps i vs) \<Longrightarrow> q \<in> set ps \<or> (\<exists>p \<in> set ps. q = p\<lparr>variants := vs\<rparr>)"
  by (induction ps) (auto split: if_splits)

lemma findOne_update_same:
  "findOne ps i = Some p \<Longrightarrow> findOne (findByIdAndUpdate ps i vs) i = Some (p\<lparr>variants := vs\<rparr>)"
  unfolding findOne_def by (induction ps) (auto split: if_splits)

lemma findOne_update_other:
  "j \<noteq> i \<Longrightarrow> findOne (findByIdAndUpdate ps i vs) j = findOne ps j"
  unfolding findOne_def by (induction ps) auto

lemma findById_update_same:
  "findById ps i = Inr (Some p)
     \<Longrightarrow> findById (findByIdAndUpdate ps i vs) i = Inr (Some (p\<lparr>variants := vs\<rparr>))"
  by (simp add: findById_def findOne_update_same split: if_splits)

lemma updateStock_found:
  assumes "findById (products st) i = Inr (Some p)"
  shows "updateStock st i c =
     (if stockOf p + c < 0 then (Inl (Error ''Insufficient stock''), st)
      else (Inr (Some (p\<lparr>variants := restocked p c\<rparr>)),
            st\<lparr>products := findByIdAndUpdate (products st) i (restocked p c)\<rparr>))"
  using assms by (cases "variants p") (simp_all add: updateStock_def stockOf_def restocked_def Let_def)

lemma updateStock_missing:
  "findById (products st) i = Inr None \<Longrightarrow> updateStock st i c = (Inr None, st)"
  by (simp add: updateStock_def)

lemma updateStock_cast:
  "findById (products st) i = Inl e \<Longrightarrow> updateStock st i c = (Inl e, st)"
  by (simp add: updateStock_def)

lemma stockOf_restocked: "stockOf (p\<lparr>variants := restocked p c\<rparr>) = stockOf p + c"
  by (cases "variants p") (simp_all add: stockOf_def restocked_def)

lemma restocked_nonneg:
  assumes "\<forall>v \<in> set (variants p). 0 \<le> stock v" and "\<not> stockOf p + c < 0"
  shows "\<forall>v \<in> set (restocked p c). 0 \<le> stock v"
  using assms by (cases "variants p") (simp_all add: stockOf_def restocked_def)

lemma updateStock_nonneg:
  assumes "stock_nonneg st"
  shows "stock_nonneg (snd (updateStock st i c))"
proof (cases rule: findById_cases [of i "products st"])
  case cast
  then show ?thesis using assms by (simp add: updateStock_cast)
next
  case missing
  then show ?thesis using assms by (simp add: updateStock_missing)
next
  case (found p)
  then have mem: "p \<in> set (products st)" by (simp add: findOne_Some_mem)
  show ?thesis
  proof (cases "stockOf p + c < 0")
    case True
    then show ?thesis using assms found by (simp add: updateStock_found)
  next
    case False
    from assms mem have "\<forall>v \<in> set (variants p). 0 \<le> stock v" by (simp add: stock_nonneg_def)
    then have new: "\<forall>v \<in> set (restocked p c). 0 \<le> stock v" using False by (rule restocked_nonneg)
    have "\<forall>q \<in> set (findByIdAndUpdate (products st) i (restocked p c)). \<forall>v \<in> set (variants q). 0 \<le> stock v"
    proof
      fix q assume "q \<in> set (findByIdAndUpdate (products st) i (restocked p c))"
      then consider "q \<in> set (products st)" | r where "r \<in> set (products st)" "q = r\<lparr>variants := restocked p c\<rparr>"
        using set_findByIdAndUpdate by blast
      then show "\<forall>v \<in> set (variants q). 0 \<le> stock v"
      proof cases
        case 1
        with assms show ?thesis by (simp add: stock_nonneg_def)
      next
        case 2
        with new show ?thesis by simp
      qed
    qed
    then show ?thesis using False found by (simp add: updateStock_found stock_nonneg_def)
  qed
qed

lemma updateStocks_nonneg: "stock_nonneg st \<Longrightarrow> stock_nonneg (updateStocks st cs)"
  by (induction st cs rule: updateStocks.induct) (simp_all add: updateStock_nonneg)

lemma updateStock_refused:
  assumes "findById (products st) i = Inr (Some p)" and "stockOf p + c < 0"
  shows "updateStock st i c = (Inl (Error ''Insufficient stock''), st)"
  using assms by (simp add: updateStock_found)

lemma updateStock_throw_unchanged: "fst (updateStock st i c) = Inl e \<Longrightarrow> snd (updateStock st i c) = st"
  by (cases rule: findById_cases [of i "products st"])
     (auto simp: updateStock_cast updateStock_missing updateStock_found split: if_splits)

text \<open>
  C2. Starting from a store in which no variant has a negative stock, any sequence of
  \<open>updateStock\<close> calls, increments and decrements alike, ends in such a store; and a call
  whose change would take the first variant's stock below zero throws
  \<^verbatim>\<open>Insufficient stock\<close> and leaves the store as it was.
\<close>

theorem stock_never_negative:
  assumes "stock_nonneg st"
  shows "stock_nonneg (updateStocks st cs) \<and>
         (\<forall>i c p. findById (products st) i = Inr (Some p) \<and> stockOf p + c < 0
            \<longrightarrow> updateStock st i c = (Inl (Error ''Insufficient stock''), st))"
  using assms by (simp add: updateStocks_nonneg updateStock_refused)

theorem stock_never_negative_witness:
  "stock_nonneg exStore \<and>
   stock_nonneg (updateStocks exStore [(p1, - 3), (p1, - 3), (p3, 2), (p1, 4)]) \<and>
   updateStock exStore p2 (- 5) = (Inl (Error ''Insufficient stock''), exStore)"
proof -
  have h: "stock_nonneg exStore"
    by (simp add: stock_nonneg_def exStore_def exProduct_def exVariant_def)
  have f: "findById (products exStore) p2 = Inr (Some (exProduct p2 [exVariant ''a'' 4 (5 / 2)]))
           \<and> stockOf (exProduct p2 [exVariant ''a'' 4 (5 / 2)]) + (- 5) < 0"
    by code_simp
  from stock_never_negative [OF h] f h show ?thesis by blast
qed

text \<open>
  C9. A release, that is \<open>updateStock\<close> with a change \<open>q \<ge> 0\<close> on a product whose first
  variant's stock is not negative (0 for a product without variants), does not throw: it
  returns the updated product, whose stock is the old stock plus \<open>q\<close>, and that product is
  what the store then holds under the id.
\<close>

theorem release_never_fails:
  assumes "findById (products st) i = Inr (Some p)" and "0 \<le> stockOf p" and "0 \<le> q"
  shows "\<exists>p'. updateStock st i q
               = (Inr (Some p'), st\<lparr>products := findByIdAndUpdate (products st) i (variants p')\<rparr>)
            \<and> stockOf p' = stockOf p + q
            \<and> findById (products (snd (updateStock st i q))) i = Inr (Some p')"
proof -
  let ?p' = "p\<lparr>variants := restocked p q\<rparr>"
  from assms have "\<not> stockOf p + q < 0" by simp
  then have "updateStock st i q
      = (Inr (Some ?p'), st\<lparr>products := findByIdAndUpdate (products st) i (variants ?p')\<rparr>)"
    using assms(1) by (simp add: updateStock_found)
  moreover have "stockOf ?p' = stockOf p + q" by (rule stockOf_restocked)
  moreover have "findById (findByIdAndUpdate (products st) i (restocked p q)) i = Inr (Some ?p')"
    using assms(1) by (rule findById_update_same)
  ultimately show ?thesis by auto
qed

theorem release_never_fails_witness:
  "findById (products exStore) p3 = Inr (Some (exProduct p3 [])) \<and>
   0 \<le> stockOf (exProduct p3 []) \<and> (0::int) \<le> 2 \<and>
   (\<exists>p'. fst (updateStock exStore p3 2) = Inr (Some p') \<and> stockOf p' = 2)"
proof -
  have f: "findById (products exStore) p3 = Inr (Some (exProduct p3 []))"
    by code_simp
  have s: "0 \<le> stockOf (exProduct p3 [])" and z: "stockOf (exProduct p3 []) = 0"
    by (simp_all add: stockOf_def exProduct_def)
  have q: "(0::int) \<le> 2" by simp
  from release_never_fails [OF f s q] z f s show ?thesis by auto
qed

section \<open>Sales\<close>

lemma processItems_Inr:
  "processItems ps ls acc t = Inr (saleItems, t') \<Longrightarrow>
     \<exists>new. saleItems = acc @ new
          \<and> t' = fold (\<lambda>it t. jsAdd t (jsMul (price it) (of_int (SaleItem.quantity it)))) new t
          \<and> list_all2 (snapshot ps) ls new \<and> (\<forall>l \<in> set ls. lineOk ps l)"
proof (induction ls arbitrary: acc t)
  case Nil
  then show ?case by simp
next
  case (Cons l ls)
  from Cons.prems obtain p where q: "0 < CreateSaleItem.quantity l"
      and f: "findById ps (CreateSaleItem.productId l) = Inr (Some p)"
      and s: "CreateSaleItem.quantity l \<le> stockOf p"
    by (auto simp: Let_def stockOf_def split: if_splits sum.splits option.splits list.splits)
  let ?it = "\<lparr>SaleItem.productId = CreateSaleItem.productId l,
              SaleItem.quantity = CreateSaleItem.quantity l, price = priceOf p\<rparr>"
  let ?t = "jsAdd t (jsMul (priceOf p) (of_int (CreateSaleItem.quantity l)))"
  from Cons.prems q f s
  have rec: "processItems ps ls (acc @ [?it]) ?t = Inr (saleItems, t')"
    by (auto simp: Let_def stockOf_def priceOf_def split: if_splits list.splits)
  from Cons.IH [OF rec] obtain new where new: "saleItems = (acc @ [?it]) @ new"
      "t' = fold (\<lambda>it t. jsAdd t (jsMul (price it) (of_int (SaleItem.quantity it)))) new ?t"
      "list_all2 (snapshot ps) ls new" "\<forall>l \<in> set ls. lineOk ps l"
    by blast
  have "snapshot ps l ?it" using f by (simp add: snapshot_def findById_found)
  moreover have "lineOk ps l" using q f s by (simp add: lineOk_def)
  ultimately show ?case using new
    by (intro exI [of _ "?it # new"]) simp
qed

lemma processItems_Inl:
  "processItems ps ls acc t = Inl e \<Longrightarrow> e = CastError \<or> (\<exists>m s. e = HttpException m s)"
proof (induction ls arbitrary: acc t)
  case Nil
  then show ?case by simp
next
  case (Cons l ls)
  then show ?case
    by (auto simp: Let_def findById_def split: if_splits sum.splits option.splits list.splits)
qed

lemma processItems_ok:
  "\<forall>l \<in> set ls. lineOk ps l \<Longrightarrow> \<exists>r. processItems ps ls acc t = Inr r"
proof (induction ls arbitrary: acc t)
  case Nil
  then show ?case by simp
next
  case (Cons l ls)
  then show ?case
    by (auto simp: Let_def lineOk_def stockOf_def split: if_splits sum.splits option.splits list.splits)
qed

lemma updateStock_sales: "Store.sales (snd (updateStock st i c)) = Store.sales st"
  by (cases rule: findById_cases [of i "products st"])
     (simp_all add: updateStock_cast updateStock_missing updateStock_found)

lemma updateAll_sales: "Store.sales (snd (updateAll st ls)) = Store.sales st"
proof (induction ls arbitrary: st)
  case Nil
  then show ?case by simp
next
  case (Cons l ls)
  show ?case
  proof (cases "updateStock st (CreateSaleItem.productId l) (- CreateSaleItem.quantity l)")
    case (Pair r st1)
    then have "Store.sales st1 = Store.sales st"
      using updateStock_sales [of st "CreateSaleItem.productId l" "- CreateSaleItem.quantity l"] by simp
    then show ?thesis using Pair Cons.IH [of st1] by (cases r) simp_all
  qed
qed

lemma stockAt_updateStock:
  assumes "findById (products st) i = Inr (Some p)" and "0 \<le> stockOf p + c"
  shows "fst (updateStock st i c) = Inr (Some (p\<lparr>variants := restocked p c\<rparr>))"
    and "stockAt (snd (updateStock st i c)) j = (if j = i then Some (stockOf p + c) else stockAt st j)"
proof -
  from assms have u: "updateStock st i c = (Inr (Some (p\<lparr>variants := restocked p c\<rparr>)),
            st\<lparr>products := findByIdAndUpdate (products st) i (restocked p c)\<rparr>)"
    by (simp add: updateStock_found)
  then show "fst (updateStock st i c) = Inr (Some (p\<lparr>variants := restocked p c\<rparr>))" by simp
  from assms(1) have f: "findOne (products st) i = Some p" by (simp add: findById_found)
  show "stockAt (snd (updateStock st i c)) j = (if j = i then Some (stockOf p + c) else stockAt st j)"
  proof (cases "j = i")
    case True
    then show ?thesis using u f
      by (simp add: stockAt_def findOne_update_same stockOf_restocked)
  next
    case False
    then show ?thesis using u by (simp add: stockAt_def findOne_update_other)
  qed
qed

lemma requested_Cons:
  "requested (l # ls) i = (if CreateSaleItem.productId l = i then CreateSaleItem.quantity l else 0) + requested ls i"
  by (simp add: requested_def)

text \<open>One \<open>updateStock\<close> call that does not throw changes the stock under its id by its
  change, and no other; a second loop that runs through has taken from every product what
  the request asks of it.\<close>

lemma stockAt_updateStock_done:
  assumes "fst (updateStock st i c) = Inr r"
  shows "stockAt (snd (updateStock st i c)) j
       = (if j = i then map_option (\<lambda>n. n + c) (stockAt st j) else stockAt st j)"
proof (cases rule: findById_cases [of i "products st"])
  case cast
  with assms show ?thesis by (simp add: updateStock_cast)
next
  case missing
  then show ?thesis by (simp add: updateStock_missing stockAt_def)
next
  case (found p)
  with assms have ok: "0 \<le> stockOf p + c"
    by (simp add: updateStock_found split: if_splits)
  from found have "stockAt st i = Some (stockOf p)" by (simp add: stockAt_def)
  with stockAt_updateStock(2) [OF found(3) ok, of j] show ?thesis by simp
qed

lemma updateAll_done:
  "fst (updateAll st ls) = None
     \<Longrightarrow> stockAt (snd (updateAll st ls)) j = map_option (\<lambda>n. n - requested ls j) (stockAt st j)"
proof (induction ls arbitrary: st)
  case Nil
  then show ?case by (simp add: requested_def option.map_ident)
next
  case (Cons l ls)
  let ?i = "CreateSaleItem.productId l" and ?q = "CreateSaleItem.quantity l"
  obtain r st1 where u: "updateStock st ?i (- ?q) = (r, st1)" by (cases "updateStock st ?i (- ?q)")
  show ?case
  proof (cases r)
    case (Inl e)
    with u Cons.prems show ?thesis by simp
  next
    case (Inr x)
    with u Cons.prems have rest: "fst (updateAll st1 ls) = None"
      and step: "updateAll st (l # ls) = updateAll st1 ls" by simp_all
    from u Inr have "fst (updateStock st ?i (- ?q)) = Inr x" by simp
    from stockAt_updateStock_done [OF this, of j] u
    have st1: "stockAt st1 j = (if j = ?i then map_option (\<lambda>n. n + - ?q) (stockAt st j) else stockAt st j)"
      by simp
    show ?thesis
      unfolding step Cons.IH [OF rest] st1
      by (cases "stockAt st j") (auto simp: requested_Cons)
  qed
qed

lemma updateStock_throws:
  "fst (updateStock st i c) = Inl e \<Longrightarrow> e = Error ''Insufficient stock'' \<or> e = CastError"
  by (cases rule: findById_cases [of i "products st"])
     (auto simp: updateStock_cast updateStock_missing updateStock_found split: if_splits)

lemma updateAll_throws:
  "fst (updateAll st ls) = Some e \<Longrightarrow> e = Error ''Insufficient stock'' \<or> e = CastError"
proof (induction ls arbitrary: st)
  case Nil
  then show ?case by simp
next
  case (Cons l ls)
  obtain r st1 where u: "updateStock st (CreateSaleItem.productId l) (- CreateSaleItem.quantity l) = (r, st1)"
    by (cases "updateStock st (CreateSaleItem.productId l) (- CreateSaleItem.quantity l)")
  show ?case
  proof (cases r)
    case (Inl x)
    with u Cons.prems have "e = x" by simp
    moreover from u Inl have "x = Error ''Insufficient stock'' \<or> x = CastError"
      using updateStock_throws [of st "CreateSaleItem.productId l" "- CreateSaleItem.quantity l" x] by simp
    ultimately show ?thesis by simp
  next
    case (Inr y)
    with u Cons.prems have "fst (updateAll st1 ls) = Some e" by simp
    then show ?thesis by (rule Cons.IH)
  qed
qed

lemma create_results:
  "create now nid st its t c =
     (if schemaValid its t
      then (Inr \<lparr>s_id = nid, Sale.items = its, total = t, Sale.customerName = c, createdAt = now\<rparr>,
            st\<lparr>Store.sales := Store.sales st @ [\<lparr>s_id = nid, Sale.items = its, total = t, Sale.customerName = c, createdAt = now\<rparr>]\<rparr>)
      else (Inl ValidationError, st))"
  by (simp add: create_def Let_def)

text \<open>Every way out of \<open>createSale\<close>, as one case distinction.\<close>

lemma createSale_cases:
  obtains (empty) "CreateSaleDto.items dto = []"
      "createSale now nid st dto = (Inl (HttpException (Msg ''Sale must contain at least one item'') BAD_REQUEST), st)"
  | (invalid) m s where "CreateSaleDto.items dto \<noteq> []"
      "processItems (products st) (CreateSaleDto.items dto) [] 0 = Inl (HttpException m s)"
      "createSale now nid st dto = (Inl (HttpException m s), st)"
  | (badId) "CreateSaleDto.items dto \<noteq> []"
      "processItems (products st) (CreateSaleDto.items dto) [] 0 = Inl CastError"
      "createSale now nid st dto = (Inl (HttpException (Msg ''Failed to create sale'') INTERNAL_SERVER_ERROR), st)"
  | (stock) its t where "CreateSaleDto.items dto \<noteq> []"
      "processItems (products st) (CreateSaleDto.items dto) [] 0 = Inr (its, t)"
      "fst (updateAll st (CreateSaleDto.items dto)) \<noteq> None"
      "createSale now nid st dto = (Inl (HttpException (Msg ''Failed to create sale'') INTERNAL_SERVER_ERROR), snd (updateAll st (CreateSaleDto.items dto)))"
  | (schema) its t where "CreateSaleDto.items dto \<noteq> []"
      "processItems (products st) (CreateSaleDto.items dto) [] 0 = Inr (its, t)"
      "fst (updateAll st (CreateSaleDto.items dto)) = None" "\<not> schemaValid its t"
      "createSale now nid st dto = (Inl (HttpException (Msg ''Failed to create sale'') INTERNAL_SERVER_ERROR), snd (updateAll st (CreateSaleDto.items dto)))"
  | (committed) its t where "CreateSaleDto.items dto \<noteq> []"
      "processItems (products st) (CreateSaleDto.items dto) [] 0 = Inr (its, t)"
      "fst (updateAll st (CreateSaleDto.items dto)) = None" "schemaValid its t"
      "createSale now nid st dto =
         (Inr \<lparr>s_id = nid, Sale.items = its, total = t, Sale.customerName = CreateSaleDto.customerName dto, createdAt = now\<rparr>,
          (snd (updateAll st (CreateSaleDto.items dto)))\<lparr>Store.sales := Store.sales st @ [\<lparr>s_id = nid, Sale.items = its, total = t, Sale.customerName = CreateSaleDto.customerName dto, createdAt = now\<rparr>]\<rparr>)"
proof (cases "CreateSaleDto.items dto = []")
  case True
  then show ?thesis using empty by (simp add: createSale_def createSale_try_def)
next
  case ne: False
  show ?thesis
  proof (cases "processItems (products st) (CreateSaleDto.items dto) [] 0")
    case (Inl e)
    then consider "e = CastError" | m s where "e = HttpException m s" using processItems_Inl by blast
    then show ?thesis
    proof cases
      case 1
      with Inl ne show ?thesis using badId by (simp add: createSale_def createSale_try_def)
    next
      case 2
      with Inl ne show ?thesis using invalid by (simp add: createSale_def createSale_try_def)
    qed
  next
    case (Inr r)
    obtain its t where r: "r = (its, t)" by (cases r)
    obtain eo st1 where u: "updateAll st (CreateSaleDto.items dto) = (eo, st1)"
      by (cases "updateAll st (CreateSaleDto.items dto)")
    show ?thesis
    proof (cases eo)
      case (Some e)
      with u have "e = Error ''Insufficient stock'' \<or> e = CastError"
        using updateAll_throws [of st "CreateSaleDto.items dto" e] by simp
      with Some u Inr r ne show ?thesis using stock [of its t]
        by (auto simp: createSale_def createSale_try_def)
    next
      case None
      show ?thesis
      proof (cases "schemaValid its t")
        case True
        with None u Inr r ne show ?thesis using committed [of its t]
          by (simp add: createSale_def createSale_try_def create_results updateAll_sales [of st "CreateSaleDto.items dto", simplified u, simplified])
      next
        case False
        with None u Inr r ne show ?thesis using schema [of its t]
          by (simp add: createSale_def createSale_try_def create_results)
      qed
    qed
  qed
qed

text \<open>A request that fails stores no sale, and one that the first loop refuses leaves the
  whole store as it was.\<close>

lemma createSale_failure_no_sale:
  "fst (createSale now nid st dto) = Inl e
     \<Longrightarrow> Store.sales (snd (createSale now nid st dto)) = Store.sales st"
  by (cases rule: createSale_cases [of dto now nid st]) (simp_all add: updateAll_sales)

lemma createSale_refused_unchanged:
  assumes "\<exists>l \<in> set (CreateSaleDto.items dto). \<not> lineOk (products st) l"
  shows "\<exists>m s. createSale now nid st dto = (Inl (HttpException m s), st)"
proof -
  have valid: "\<forall>l \<in> set (CreateSaleDto.items dto). lineOk (products st) l"
    if "processItems (products st) (CreateSaleDto.items dto) [] 0 = Inr (its, t)" for its t
    using processItems_Inr [OF that] by blast
  show ?thesis
  proof (cases rule: createSale_cases [of dto now nid st])
    case empty
    then show ?thesis by blast
  next
    case (invalid m s)
    then show ?thesis by blast
  next
    case badId
    then show ?thesis by blast
  next
    case (stock its t)
    with assms valid show ?thesis by blast
  next
    case (schema its t)
    with assms valid show ?thesis by blast
  next
    case (committed its t)
    with assms valid show ?thesis by blast
  qed
qed

text \<open>An id that is not an ObjectId: the request ends with status 500, not 404, and
  \<open>updateStock\<close> throws the \<open>CastError\<close>; the store is as it was.\<close>

lemma malformed_id_samples:
  "createSale 1000 ''s1'' exStore (exDto [exLine ''p1'' 3])
     = (Inl (HttpException (Msg ''Failed to create sale'') INTERNAL_SERVER_ERROR), exStore)"
  "createSale 1000 ''s1'' exStore (exDto [exLine gone 3])
     = (Inl (HttpException (Msg (''Product with ID '' @ gone @ '' not found'')) NOT_FOUND), exStore)"
  "updateStock exStore ''p1'' 2 = (Inl CastError, exStore)"
  by code_simp+

text \<open>
  C3, as the code has it. A sale that \<open>createSale\<close> commits has as its total the sum over
  its items of price times quantity as JavaScript computes it: each product is rounded to a
  double and added, in the order of the items, to the running total, which starts at 0 and
  is rounded after each addition. Its items are the request's lines, in order, each at the
  price its product offered in the store the request met: the price is copied into the
  sale. The sale is appended to the sale collection as returned, and a later stock update
  leaves the collection, and with it the stored prices and total, as it is.
\<close>

theorem sale_total_is_rounded_sum:
  assumes "createSale now nid st dto = (Inr s, st')"
  shows "total s = jsTotal (Sale.items s)
       \<and> list_all2 (snapshot (products st)) (CreateSaleDto.items dto) (Sale.items s)
       \<and> Store.sales st' = Store.sales st @ [s]
       \<and> (\<forall>i c. Store.sales (snd (updateStock st' i c)) = Store.sales st')"
proof (cases rule: createSale_cases [of dto now nid st])
  case empty
  with assms show ?thesis by simp
next
  case (invalid m x)
  with assms show ?thesis by simp
next
  case badId
  with assms show ?thesis by simp
next
  case (stock its t)
  with assms show ?thesis by simp
next
  case (schema its t)
  with assms show ?thesis by simp
next
  case (committed its t)
  from processItems_Inr [OF committed(2)]
  have t: "t = jsTotal its"
    and snap: "list_all2 (snapshot (products st)) (CreateSaleDto.items dto) its"
    by (auto simp: jsTotal_def)
  from committed(5) assms
  have s: "s = \<lparr>s_id = nid, Sale.items = its, total = t,
               Sale.customerName = CreateSaleDto.customerName dto, createdAt = now\<rparr>"
    and st': "Store.sales st' = Store.sales st @ [s]"
    by auto
  from s t snap st' show ?thesis by (simp add: updateStock_sales)
qed

theorem sale_total_is_rounded_sum_witness:
  "fst (createSale 1000 ''s1'' exStore (exDto [exLine p1 3, exLine p2 2])) = Inr exSale \<and>
   total exSale = 35 \<and> jsTotal (Sale.items exSale) = 35 \<and>
   Store.sales (snd (createSale 1000 ''s1'' exStore (exDto [exLine p1 3, exLine p2 2]))) = [exSale]"
proof -
  let ?r = "createSale 1000 ''s1'' exStore (exDto [exLine p1 3, exLine p2 2])"
  have r: "fst ?r = Inr exSale" by code_simp
  then have h: "?r = (Inr exSale, snd ?r)" by (metis prod.collapse)
  have e: "Store.sales exStore = []" by (simp add: exStore_def)
  have t: "total exSale = 35" by (simp add: exSale_def)
  from sale_total_is_rounded_sum [OF h] r e t show ?thesis by simp
qed

text \<open>
  C3, as the claim states it, fails. The product \<open>p4\<close> is priced at 0.1 and the request
  asks for three of it. The sale is committed with the total that JavaScript prints as
  0.30000000000000004, which is not three times the price stored in its one item.
\<close>

theorem sale_total_not_exact:
  "fst (createSale 1000 ''s1'' exDimeStore (exDto [exLine p4 3])) = Inr exDimeSale \<and>
   total exDimeSale = 5404319552844596 / 18014398509481984 \<and>
   sum_list (map lineTotal (Sale.items exDimeSale)) = 10808639105689191 / 36028797018963968 \<and>
   total exDimeSale \<noteq> sum_list (map lineTotal (Sale.items exDimeSale))"
  by code_simp



text \<open>
  C1 on a request with two lines for the same product. The product \<open>p1\<close> has 5 in stock
  and the request has two lines of 3 for it. Each line passes the check of the first loop,
  which looks at one line at a time; the first decrement is applied, the second throws, and
  the request ends with status 500: no sale is stored, but the stock stays at 2. The total
  asked of the product, 6, exceeded its stock, and the stock changed; the decrement that
  was applied before the failure was not released. The same 6 asked in one line is refused
  by the check, with status 400 and the store as it was.
\<close>

theorem createSale_partial_commit:
  "requested [exLine p1 3, exLine p1 3] p1 = 6 \<and>
   stockAt exStore p1 = Some 5 \<and>
   fst (createSale 0 ''s1'' exStore (exDto [exLine p1 3, exLine p1 3]))
     = Inl (HttpException (Msg ''Failed to create sale'') INTERNAL_SERVER_ERROR) \<and>
   stockAt (snd (createSale 0 ''s1'' exStore (exDto [exLine p1 3, exLine p1 3]))) p1 = Some 2 \<and>
   Store.sales (snd (createSale 0 ''s1'' exStore (exDto [exLine p1 3, exLine p1 3]))) = [] \<and>
   createSale 0 ''s1'' exStore (exDto [exLine p1 6])
     = (Inl (HttpException (InsufficientStockMsg (''item '' @ p1) 5 6) BAD_REQUEST), exStore)"
  by code_simp

section \<open>The first variant\<close>

lemma firstVariantOnly_sel:
  "p_id (firstVariantOnly p) = p_id p"
  "Product.name (firstVariantOnly p) = Product.name p"
  "basePrice (firstVariantOnly p) = basePrice p"
  "Product.purchasedPrice (firstVariantOnly p) = Product.purchasedPrice p"
  "Product.sellingPrice (firstVariantOnly p) = Product.sellingPrice p"
  "variants (firstVariantOnly p) = take 1 (variants p)"
  by (simp_all add: firstVariantOnly_def)

lemma findOne_firstOnly:
  "findOne (map firstVariantOnly ps) i = map_option firstVariantOnly (findOne ps i)"
  unfolding findOne_def by (induction ps) (auto simp: firstVariantOnly_def)

lemma findById_firstOnly:
  "findById (map firstVariantOnly ps) i
     = (case findById ps i of Inl e \<Rightarrow> Inl e | Inr r \<Rightarrow> Inr (map_option firstVariantOnly r))"
  by (simp add: findById_def findOne_firstOnly)

lemma findByIdAndUpdate_firstOnly:
  "findByIdAndUpdate (map firstVariantOnly ps) i (take (Suc 0) vs) = map firstVariantOnly (findByIdAndUpdate ps i vs)"
  by (induction ps) (auto simp: firstVariantOnly_def)

lemma processItems_firstOnly:
  "processItems (map firstVariantOnly ps) ls acc t = processItems ps ls acc t"
proof (induction ls arbitrary: acc t)
  case Nil
  then show ?case by simp
next
  case (Cons l ls)
  show ?case
  proof (cases rule: findById_cases [of "CreateSaleItem.productId l" ps])
    case cast
    then show ?thesis by (simp add: findById_firstOnly)
  next
    case missing
    then show ?thesis by (simp add: findById_firstOnly)
  next
    case (found p)
    then show ?thesis
      by (cases "variants p") (simp_all add: findById_firstOnly firstVariantOnly_sel Let_def Cons.IH)
  qed
qed

lemma stockOf_firstOnly: "stockOf (firstVariantOnly p) = stockOf p"
  by (cases "variants p") (simp_all add: stockOf_def firstVariantOnly_def)

lemma restocked_firstOnly: "restocked (firstVariantOnly p) c = take 1 (restocked p c)"
  by (cases "variants p") (simp_all add: restocked_def firstVariantOnly_def)

lemma updateStock_firstOnly:
  "updateStock (firstOnly st) i c
     = (map_sum (\<lambda>e. e) (map_option firstVariantOnly) (fst (updateStock st i c)),
        firstOnly (snd (updateStock st i c)))"
proof (cases rule: findById_cases [of i "products st"])
  case cast
  then show ?thesis by (simp add: updateStock_def firstOnly_def findById_firstOnly)
next
  case missing
  then show ?thesis by (simp add: updateStock_def firstOnly_def findById_firstOnly)
next
  case (found p)
  then have f: "findById (products (firstOnly st)) i = Inr (Some (firstVariantOnly p))"
    by (simp add: firstOnly_def findById_firstOnly)
  show ?thesis
    unfolding updateStock_found [OF found(3)] updateStock_found [OF f]
    by (simp add: stockOf_firstOnly restocked_firstOnly firstOnly_def findByIdAndUpdate_firstOnly)
       (simp add: firstVariantOnly_def)
qed

lemma updateAll_firstOnly:
  "updateAll (firstOnly st) ls = (fst (updateAll st ls), firstOnly (snd (updateAll st ls)))"
proof (induction ls arbitrary: st)
  case Nil
  then show ?case by simp
next
  case (Cons l ls)
  obtain r st1 where u: "updateStock st (CreateSaleItem.productId l) (- CreateSaleItem.quantity l) = (r, st1)"
    by (cases "updateStock st (CreateSaleItem.productId l) (- CreateSaleItem.quantity l)")
  then show ?case
    by (cases r) (simp_all add: updateStock_firstOnly Cons.IH)
qed

lemma create_firstOnly:
  "create now nid (firstOnly st) its t c
     = (fst (create now nid st its t c), firstOnly (snd (create now nid st its t c)))"
  by (simp add: create_def firstOnly_def Let_def)

lemma createSale_try_firstOnly:
  "createSale_try now nid (firstOnly st) dto
     = (fst (createSale_try now nid st dto), firstOnly (snd (createSale_try now nid st dto)))"
proof -
  have p: "products (firstOnly st) = map firstVariantOnly (products st)"
    by (simp add: firstOnly_def)
  show ?thesis
    unfolding createSale_try_def p processItems_firstOnly updateAll_firstOnly
    by (auto simp: create_firstOnly split: sum.splits prod.splits option.splits)
qed

lemma createSale_firstOnly:
  "createSale now nid (firstOnly st) dto
     = (fst (createSale now nid st dto), firstOnly (snd (createSale now nid st dto)))"
  unfolding createSale_def createSale_try_firstOnly
  by (auto split: sum.splits prod.splits exn.splits)

lemma otherVariants_update:
  "findOne ps i = Some p \<Longrightarrow> tl vs = tl (variants p)
     \<Longrightarrow> map (\<lambda>p. tl (variants p)) (findByIdAndUpdate ps i vs) = map (\<lambda>p. tl (variants p)) ps"
  unfolding findOne_def by (induction ps) (auto split: if_splits)

lemma tl_restocked: "tl (restocked p c) = tl (variants p)"
  by (cases "variants p") (simp_all add: restocked_def)

lemma otherVariants_updateStock: "otherVariants (snd (updateStock st i c)) = otherVariants st"
proof (cases rule: findById_cases [of i "products st"])
  case cast
  then show ?thesis by (simp add: updateStock_cast)
next
  case missing
  then show ?thesis by (simp add: updateStock_missing)
next
  case (found p)
  then show ?thesis
    by (simp add: updateStock_found otherVariants_def otherVariants_update tl_restocked)
qed

lemma otherVariants_updateAll: "otherVariants (snd (updateAll st ls)) = otherVariants st"
proof (induction ls arbitrary: st)
  case Nil
  then show ?case by simp
next
  case (Cons l ls)
  obtain r st1 where u: "updateStock st (CreateSaleItem.productId l) (- CreateSaleItem.quantity l) = (r, st1)"
    by (cases "updateStock st (CreateSaleItem.productId l) (- CreateSaleItem.quantity l)")
  then have "otherVariants st1 = otherVariants st"
    using otherVariants_updateStock [of st "CreateSaleItem.productId l" "- CreateSaleItem.quantity l"] by simp
  with u show ?case by (cases r) (simp_all add: Cons.IH)
qed

lemma otherVariants_createSale: "otherVariants (snd (createSale now nid st dto)) = otherVariants st"
  by (cases rule: createSale_cases [of dto now nid st])
     (simp_all add: otherVariants_updateAll, simp add: otherVariants_def otherVariants_updateAll [unfolded otherVariants_def])

text \<open>
  C10. \<open>createSale\<close> works on first variants only. Its outcome on a store is its outcome on
  the same store with every other variant erased, and the store it leaves is, first variants
  apart, the store it met: the variants after the first of every product are as they were.
  When it commits, every line was checked against the stock of its product's first variant
  (0 without variants) and priced at that variant's selling price (the base price without
  variants), and the stock of the first variant of every product has gone down by the
  total quantity that the request's lines ask of the product. The request type
  \<open>CreateSaleItem\<close> has a product id and a quantity, and no variant id.
\<close>

theorem createSale_first_variant_only:
  "fst (createSale now nid (firstOnly st) dto) = fst (createSale now nid st dto)
   \<and> snd (createSale now nid (firstOnly st) dto) = firstOnly (snd (createSale now nid st dto))
   \<and> otherVariants (snd (createSale now nid st dto)) = otherVariants st
   \<and> (\<forall>s. fst (createSale now nid st dto) = Inr s
        \<longrightarrow> (\<forall>l \<in> set (CreateSaleDto.items dto). lineOk (products st) l)
            \<and> list_all2 (snapshot (products st)) (CreateSaleDto.items dto) (Sale.items s)
            \<and> (\<forall>i. stockAt (snd (createSale now nid st dto)) i
                   = map_option (\<lambda>n. n - requested (CreateSaleDto.items dto) i) (stockAt st i)))"
proof (intro conjI allI impI)
  show "fst (createSale now nid (firstOnly st) dto) = fst (createSale now nid st dto)"
    by (simp add: createSale_firstOnly)
  show "snd (createSale now nid (firstOnly st) dto) = firstOnly (snd (createSale now nid st dto))"
    by (simp add: createSale_firstOnly)
  show "otherVariants (snd (createSale now nid st dto)) = otherVariants st"
    by (rule otherVariants_createSale)
next
  fix s assume ok: "fst (createSale now nid st dto) = Inr s"
  then have "(\<forall>l \<in> set (CreateSaleDto.items dto). lineOk (products st) l)
      \<and> list_all2 (snapshot (products st)) (CreateSaleDto.items dto) (Sale.items s)
      \<and> (\<forall>i. stockAt (snd (createSale now nid st dto)) i
             = map_option (\<lambda>n. n - requested (CreateSaleDto.items dto) i) (stockAt st i))"
  proof (cases rule: createSale_cases [of dto now nid st])
    case (committed its t)
    from updateAll_done [OF committed(3)]
    have "\<forall>i. stockAt (snd (createSale now nid st dto)) i
        = map_option (\<lambda>n. n - requested (CreateSaleDto.items dto) i) (stockAt st i)"
      unfolding committed(5) by (simp add: stockAt_def)
    with processItems_Inr [OF committed(2)] committed(5) ok show ?thesis by auto
  qed simp_all
  then show "\<forall>l \<in> set (CreateSaleDto.items dto). lineOk (products st) l"
    and "list_all2 (snapshot (products st)) (CreateSaleDto.items dto) (Sale.items s)"
    and "\<And>i. stockAt (snd (createSale now nid st dto)) i
           = map_option (\<lambda>n. n - requested (CreateSaleDto.items dto) i) (stockAt st i)"
    by simp_all
qed

theorem createSale_first_variant_only_witness:
  "fst (createSale 1000 ''s1'' exStore (exDto [exLine p1 3, exLine p2 2])) = Inr exSale \<and>
   fst (createSale 1000 ''s1'' (firstOnly exStore) (exDto [exLine p1 3, exLine p2 2])) = Inr exSale \<and>
   otherVariants (snd (createSale 1000 ''s1'' exStore (exDto [exLine p1 3, exLine p2 2])))
     = [[exVariant ''b'' 7 11], [], []] \<and>
   list_all2 (snapshot (products exStore)) [exLine p1 3, exLine p2 2] (Sale.items exSale) \<and>
   stockAt exStore p1 = Some 5 \<and>
   stockAt (snd (createSale 1000 ''s1'' exStore (exDto [exLine p1 3, exLine p2 2]))) p1 = Some 2 \<and>
   stockAt exStore p2 = Some 4 \<and>
   stockAt (snd (createSale 1000 ''s1'' exStore (exDto [exLine p1 3, exLine p2 2]))) p2 = Some 2"
proof -
  let ?dto = "exDto [exLine p1 3, exLine p2 2]"
  have r: "fst (createSale 1000 ''s1'' exStore ?dto) = Inr exSale" by code_simp
  have o: "otherVariants exStore = [[exVariant ''b'' 7 11], [], []]"
    by (simp add: otherVariants_def exStore_def exProduct_def)
  have i: "CreateSaleDto.items ?dto = [exLine p1 3, exLine p2 2]" by (simp add: exDto_def)
  have s: "stockAt exStore p1 = Some 5" "stockAt exStore p2 = Some 4" by code_simp+
  have q: "requested [exLine p1 3, exLine p2 2] p1 = 3" "requested [exLine p1 3, exLine p2 2] p2 = 2"
    by code_simp+
  from createSale_first_variant_only [of 1000 "''s1''" exStore ?dto] r o i s q
  show ?thesis by simp
qed

section \<open>Reports\<close>




text \<open>
  C8 at a server five hours west of UTC, asked for 2024-03-15. The date string is read as
  midnight UTC, which on the server's clock is 19:00 of the 14th, and \<open>setHours\<close> then
  moves within that local day: the report covers the 14th. Of two sales made at noon local
  time, one on the 14th and one on the 15th, it has the first and not the second.
\<close>

theorem daily_report_west_of_utc:
  "localDate (- 300) 1710435600000 = (2024, 3, 14) \<and>
   localDate (- 300) 1710522000000 = (2024, 3, 15) \<and>
   DailySalesReport.sales (getDailySalesReport (- 300)
       (exSalesStore [exSaleAt ''s1'' 1710435600000, exSaleAt ''s2'' 1710522000000]) (2024, 3, 15))
     = [exSaleAt ''s1'' 1710435600000] \<and>
   DailySalesReport.totalSales (getDailySalesReport (- 300)
       (exSalesStore [exSaleAt ''s1'' 1710435600000, exSaleAt ''s2'' 1710522000000]) (2024, 3, 15)) = 1"
  by code_simp

text \<open>At a server at or east of UTC (by less than a day) the daily report has the sales
  of the local calendar day asked for, both ends included.\<close>

lemma div_eq_iff_between:
  fixes a c q :: int
  assumes "0 < c"
  shows "a div c = q \<longleftrightarrow> q * c \<le> a \<and> a < q * c + c"
proof
  assume "a div c = q"
  moreover have "a = (a div c) * c + a mod c" by simp
  moreover have "0 \<le> a mod c" and "a mod c < c" using assms by simp_all
  ultimately show "q * c \<le> a \<and> a < q * c + c" by auto
next
  assume h: "q * c \<le> a \<and> a < q * c + c"
  define r where "r = a - q * c"
  with h have r: "0 \<le> r" "r < c" and a: "a = r + q * c" by simp_all
  have "(r + q * c) div c = q" using r by (simp add: div_pos_pos_trivial)
  with a show "a div c = q" by simp
qed

lemma daily_report_east_of_utc:
  assumes "0 \<le> tz" and "tz < 1440"
  shows "s \<in> set (DailySalesReport.sales (getDailySalesReport tz st (y, m, d)))
     \<longleftrightarrow> s \<in> set (Store.sales st) \<and> (createdAt s + tz * 60000) div msPerDay = MakeDay y (m - 1) d"
proof -
  let ?D = "MakeDay y (m - 1) d" and ?o = "tz * 60000"
  from assms have o: "0 \<le> ?o" "?o < 86400000" by simp_all
  have "(?D * 86400000 + ?o) div 86400000 = ?D"
    using o by (simp add: div_eq_iff_between)
  then have start: "(?D * msPerDay + ?o) div msPerDay * msPerDay = ?D * msPerDay"
    by (simp add: msPerDay_def)
  have "(createdAt s + ?o) div msPerDay = ?D
      \<longleftrightarrow> ?D * msPerDay - ?o \<le> createdAt s \<and> createdAt s \<le> ?D * msPerDay + 86399999 - ?o"
    by (auto simp: div_eq_iff_between msPerDay_def)
  then show ?thesis
    by (simp add: getDailySalesReport_def Let_def findBetween_def parseDate_def setHours_def
        MakeTime_def start)
qed

text \<open>
  C5 at two servers, for March 2024. At UTC+5:30 the loop starts at local midnight of
  1 March, which is 29 February in UTC, and the keys are the UTC dates: the report runs from
  29 February to 30 March, with 31 March missing. At UTC-5 the keys are right, but a sale
  made at 22:00 local time on 31 March has the UTC date 1 April, finds no key and adds one:
  the report has 32 entries.
\<close>

theorem monthly_report_days_shifted:
  "map DailyStat.date (dailyStats (getMonthlySalesReport 330 exStore 3 2024))
     = (2024, 2, 29) # map (\<lambda>d. (2024, 3, d))
         [1, 2, 3, 4, 5, 6, 7, 8, 9, 10, 11, 12, 13, 14, 15, 16, 17, 18, 19, 20, 21, 22, 23, 24,
          25, 26, 27, 28, 29, 30] \<and>
   localDate (- 300) 1711940400000 = (2024, 3, 31) \<and>
   map DailyStat.date (dailyStats (getMonthlySalesReport (- 300)
       (exSalesStore [exSaleAt ''s1'' 1711940400000]) 3 2024))
     = map (\<lambda>d. (2024, 3, d))
         [1, 2, 3, 4, 5, 6, 7, 8, 9, 10, 11, 12, 13, 14, 15, 16, 17, 18, 19, 20, 21, 22, 23, 24,
          25, 26, 27, 28, 29, 30, 31] @ [(2024, 4, 1)]"
  by code_simp

text \<open>At a server on UTC the same month has its 31 days.\<close>

lemma monthly_report_in_utc:
  "map DailyStat.date (dailyStats (getMonthlySalesReport 0 exStore 3 2024))
     = map (\<lambda>d. (2024, 3, d))
         [1, 2, 3, 4, 5, 6, 7, 8, 9, 10, 11, 12, 13, 14, 15, 16, 17, 18, 19, 20, 21, 22, 23, 24,
          25, 26, 27, 28, 29, 30, 31]"
  by code_simp






















end
